theory Spec2Isabelle
  imports Complex_Main "HOL-Library.Sublist"
begin

section \<open>The donut slicer visual\<close>

text \<open>
  A shallow embedding of the custom visual of \<^verbatim>\<open>src/unnamed/part_000\<close> (the data-bound
  revision of \<^verbatim>\<open>src/src/donutSlicer.ts\<close>): the view model builder \<^verbatim>\<open>visualTransform\<close> and
  the method \<^verbatim>\<open>DonutSlicer.update\<close>.

  JavaScript numbers are read as real numbers: \<^verbatim>\<open>NaN\<close> and the infinities are outside the
  model. An exception is a value \<open>Inl TypeError\<close>; \<^verbatim>\<open>null\<close> and \<^verbatim>\<open>undefined\<close> of an optional
  field are \<open>None\<close>.
\<close>

subsection \<open>Host data: table cells, data views, update options\<close>

text \<open>
  A table cell is a primitive value of the host: absent, a boolean, a number or a string
  (dates are left out). The rows of a table are arrays of cells, not typed by the source;
  the builder reads the cells at positions 0 and 1. In a data view the metadata is
  required and the table is optional, as is the rows array of a table.
\<close>

datatype prim = PUndefined | PNull | PBool bool | PNum real | PStr string

text \<open>The truth value JavaScript gives a cell in \<^verbatim>\<open>if (slice[1])\<close>.\<close>

fun truthy :: "prim \<Rightarrow> bool" where
  "truthy PUndefined = False"
| "truthy PNull = False"
| "truthy (PBool b) = b"
| "truthy (PNum x) = (x \<noteq> 0)"
| "truthy (PStr s) = (s \<noteq> [])"

text \<open>\<^verbatim>\<open>slice[i]\<close>: reading an array past its end gives \<^verbatim>\<open>undefined\<close>.\<close>

definition cell :: "prim list \<Rightarrow> nat \<Rightarrow> prim" where
  "cell slice i = (if i < length slice then slice ! i else PUndefined)"

type_synonym DataViewObjects = "(string \<times> prim) list"

record DataViewMetadata =
  objects :: "DataViewObjects option"

record DataViewTable =
  rows :: "prim list list option"

record DataView =
  metadata :: DataViewMetadata
  table :: "DataViewTable option"

record IViewport =
  width :: real
  height :: real

record VisualUpdateOptions =
  viewport :: IViewport
  dataViews :: "DataView option list option"

datatype error = TypeError

subsection \<open>The view model and its builder\<close>

record DonutSlicerDataPoint =
  count :: prim
  category :: prim

record DonutSlicerViewModel =
  dataPoints :: "DonutSlicerDataPoint list"

text \<open>
  The loop \<^verbatim>\<open>for (let slice of rows) { if (slice[1]) donutDataPoints.push({...}) }\<close>,
  with the array built so far as accumulator.
\<close>

fun push_slices :: "prim list list \<Rightarrow> DonutSlicerDataPoint list \<Rightarrow> DonutSlicerDataPoint list" where
  "push_slices [] donutDataPoints = donutDataPoints"
| "push_slices (slice # rest) donutDataPoints =
     push_slices rest
       (if truthy (cell slice 1)
        then donutDataPoints @ [\<lparr>count = cell slice 0, category = cell slice 1\<rparr>]
        else donutDataPoints)"

text \<open>
  \<^verbatim>\<open>visualTransform(options, host)\<close>; the host argument is not used by the function.
  \<open>Inr None\<close> is the result \<^verbatim>\<open>null\<close>. After the guard the function reads
  \<^verbatim>\<open>options.dataViews[0].metadata.objects\<close> and \<^verbatim>\<open>options.dataViews[0].table.rows\<close>;
  a missing table, or a table with no rows array, raises a \<^verbatim>\<open>TypeError\<close>.
\<close>

definition visualTransform ::
  "VisualUpdateOptions option \<Rightarrow> error + DonutSlicerViewModel option" where
  "visualTransform options =
     (case options of
        None \<Rightarrow> Inr None
      | Some opts \<Rightarrow>
          (case dataViews opts of
             None \<Rightarrow> Inr None
           | Some [] \<Rightarrow> Inr None
           | Some (None # _) \<Rightarrow> Inr None
           | Some (Some dv # _) \<Rightarrow>
               (let objs = objects (metadata dv) in
                case table dv of
                  None \<Rightarrow> Inl TypeError
                | Some t \<Rightarrow>
                    (case rows t of
                       None \<Rightarrow> Inl TypeError
                     | Some rs \<Rightarrow> Inr (Some \<lparr>dataPoints = push_slices rs []\<rparr>)))))"

text \<open>
  The first data view of an update, when the update, its data-view collection and the
  first entry of the collection are all present.
\<close>

definition first_view :: "VisualUpdateOptions option \<Rightarrow> DataView option" where
  "first_view options =
     (case options of
        None \<Rightarrow> None
      | Some opts \<Rightarrow>
          (case dataViews opts of
             None \<Rightarrow> None
           | Some [] \<Rightarrow> None
           | Some (dv # _) \<Rightarrow> dv))"

text \<open>The rows of a data view that has a table with a rows array.\<close>

definition view_rows :: "DataView \<Rightarrow> prim list list option" where
  "view_rows dv = (case table dv of None \<Rightarrow> None | Some t \<Rightarrow> rows t)"

text \<open>The data point the builder makes of a row.\<close>

definition point_of :: "prim list \<Rightarrow> DonutSlicerDataPoint" where
  "point_of slice = \<lparr>count = cell slice 0, category = cell slice 1\<rparr>"

text \<open>A category cell that is absent or empty: \<^verbatim>\<open>undefined\<close>, \<^verbatim>\<open>null\<close> or the empty string.\<close>

fun absent_or_empty :: "prim \<Rightarrow> bool" where
  "absent_or_empty PUndefined = True"
| "absent_or_empty PNull = True"
| "absent_or_empty (PStr s) = (s = [])"
| "absent_or_empty _ = False"

subsection \<open>The charting library\<close>

text \<open>
  The visual draws through the d3 library, which is not among the sources. What
  \<^verbatim>\<open>update\<close> needs of it is modelled below: the numeric reading of a datum, the pie
  layout, the ordinal colour scale \<^verbatim>\<open>d3.scale.category20b()\<close>, and the data join
  \<^verbatim>\<open>selectAll(..).data(..).enter().append(..)\<close>, which on a freshly appended, empty group
  creates one element per datum, in the order of the data.
\<close>

text \<open>
  Modelled from the spec: the numeric reading of a count by the pie layout of d3, which
  is not among the sources. A number is read as it is and a missing count as 0; a
  boolean is read as 0 or 1. A string count, which JavaScript would parse, and an
  \<^verbatim>\<open>undefined\<close> count, which JavaScript reads as \<^verbatim>\<open>NaN\<close>, are outside the model: they are
  read as 0 here, and every property below that involves the numeric reading of a count
  is stated for numeric counts only.
\<close>

fun number_of :: "prim \<Rightarrow> real" where
  "number_of (PNum x) = x"
| "number_of (PBool b) = (if b then 1 else 0)"
| "number_of _ = 0"

text \<open>The cells whose numeric reading above is the one JavaScript gives.\<close>

fun numeric :: "prim \<Rightarrow> bool" where
  "numeric (PNum x) = True"
| "numeric (PBool b) = True"
| "numeric PNull = True"
| "numeric _ = False"

text \<open>The datum the pie layout makes of one value: the value and its two angles.\<close>

record arc_datum =
  arc_value :: real
  startAngle :: real
  endAngle :: real

text \<open>
  Modelled from the spec: the segments of the pie layout, which is not among the sources,
  one after the other in the input order from the angle \<open>a\<close>, a value \<open>v\<close> spanning the
  angle \<open>v * k\<close>.
\<close>

fun pie_arcs :: "real \<Rightarrow> real \<Rightarrow> real list \<Rightarrow> arc_datum list" where
  "pie_arcs k a [] = []"
| "pie_arcs k a (v # vs) =
     \<lparr>arc_value = v, startAngle = a, endAngle = a + v * k\<rparr> # pie_arcs k (a + v * k) vs"

text \<open>
  Modelled from the spec: the pie layout \<^verbatim>\<open>d3.layout.pie()\<close>, which is not among the
  sources. The angular span of a value is the value times \<open>2\<pi> / sum\<close>, the segments start
  at angle 0, and when the sum is 0 every span is 0 (no division takes place).
\<close>

definition pie :: "prim list \<Rightarrow> arc_datum list" where
  "pie data =
     (let values = map number_of data;
          total = sum_list values;
          k = (if total = 0 then 0 else 2 * pi / total)
      in pie_arcs k 0 values)"


text \<open>The angular span of a segment.\<close>

definition angular_span :: "arc_datum \<Rightarrow> real" where
  "angular_span d = endAngle d - startAngle d"

text \<open>
  Modelled from the spec: the palette of \<^verbatim>\<open>d3.scale.category20b()\<close>, which is not among
  the sources: a fixed list of 20 colours.
\<close>

definition category20b :: "string list" where
  "category20b =
     [''#393b79'', ''#5254a3'', ''#6b6ecf'', ''#9c9ede'', ''#637939'',
      ''#8ca252'', ''#b5cf6b'', ''#cedb9c'', ''#8c6d31'', ''#bd9e39'',
      ''#e7ba52'', ''#e7cb94'', ''#843c39'', ''#ad494a'', ''#d6616b'',
      ''#e7969c'', ''#7b4173'', ''#a55194'', ''#ce6dbd'', ''#de9ed6'']"

text \<open>The position of the first occurrence of a value in a list.\<close>

fun index_of :: "'a \<Rightarrow> 'a list \<Rightarrow> nat option" where
  "index_of x [] = None"
| "index_of x (y # ys) =
     (if x = y then Some 0 else map_option Suc (index_of x ys))"

text \<open>
  Modelled from the spec: the ordinal scale \<^verbatim>\<open>color\<close> made by
  \<^verbatim>\<open>d3.scale.category20b()\<close>, which is not among the sources. Its state is its domain:
  the distinct values it has been applied to, in the order of their first application
  (what \<^verbatim>\<open>color.domain()\<close> returns). A value at position \<open>k\<close> of the domain has colour
  \<open>k mod 20\<close> of the palette; a new value is appended to the domain first. The source's
  comments say as much: with more than 20 entries the colours are reused, and each
  legend element passes its label, an element of the domain, to \<^verbatim>\<open>color\<close>.
\<close>

definition color :: "nat list \<Rightarrow> nat \<Rightarrow> string \<times> nat list" where
  "color seen x =
     (case index_of x seen of
        Some k \<Rightarrow> (category20b ! (k mod length category20b), seen)
      | None \<Rightarrow> (category20b ! (length seen mod length category20b), seen @ [x]))"

text \<open>The text d3 writes for a number that is a natural number: its decimal digits.\<close>

fun string_of_nat :: "nat \<Rightarrow> string" where
  "string_of_nat n =
     (if n < 10 then [''0123456789'' ! n]
      else string_of_nat (n div 10) @ [''0123456789'' ! (n mod 10)])"

declare string_of_nat.simps [simp del]

subsection \<open>The drawing surface\<close>

text \<open>
  The \<^verbatim>\<open>svg\<close> element the visual owns: its two attributes and the groups appended to it.
  A group holds the \<^verbatim>\<open>path\<close> elements of the ring and the legend rows.
\<close>

record path_elem =
  datum :: arc_datum
  innerRadius :: real
  outerRadius :: real
  fill :: string

record legend_elem =
  legend_transform :: "real \<times> real"
  rect_width :: real
  rect_height :: real
  rect_fill :: string
  rect_stroke :: string
  text_x :: real
  text_y :: real
  text_content :: string

record group_elem =
  transform :: "real \<times> real"
  paths :: "path_elem list"
  legends :: "legend_elem list"

record svg_elem =
  attr_width :: "real option"
  attr_height :: "real option"
  children :: "group_elem list"

text \<open>The surface the constructor makes: \<^verbatim>\<open>d3.select(options.element).append('svg')\<close>.\<close>

definition constructor :: svg_elem where
  "constructor = \<lparr>attr_width = None, attr_height = None, children = []\<rparr>"

subsection \<open>The method update\<close>

definition donutWidth :: real where
  "donutWidth = 50"

definition legendRectSize :: real where
  "legendRectSize = 18"

definition legendSpacing :: real where
  "legendSpacing = 4"

text \<open>
  The paths: the join on the new, empty group makes one path per datum of the pie layout,
  in order, drawn by the arc generator with the two radii; then
  \<^verbatim>\<open>fill: function(d, i) { return color(i); }\<close> is applied to each in order, from index
  \<open>i\<close>, with the domain of the scale passed along.
\<close>

fun fill_paths ::
  "real \<Rightarrow> real \<Rightarrow> arc_datum list \<Rightarrow> nat \<Rightarrow> nat list \<Rightarrow> path_elem list \<times> nat list" where
  "fill_paths r0 r1 [] i seen = ([], seen)"
| "fill_paths r0 r1 (d # ds) i seen =
     (let (c, seen1) = color seen i;
          (ps, seen2) = fill_paths r0 r1 ds (Suc i) seen1
      in (\<lparr>datum = d, innerRadius = r0, outerRadius = r1, fill = c\<rparr> # ps, seen2))"

text \<open>\<^verbatim>\<open>.style('fill', color)\<close>: the scale applied to the datum of each legend row, in order.\<close>

fun style_color :: "nat list \<Rightarrow> nat list \<Rightarrow> string list \<times> nat list" where
  "style_color [] seen = ([], seen)"
| "style_color (d # ds) seen =
     (let (c, seen1) = color seen d;
          (cs, seen2) = style_color ds seen1
      in (c # cs, seen2))"

text \<open>
  The legend: one row per element of \<^verbatim>\<open>color.domain()\<close>, moved to
  \<open>(-2 * legendRectSize, i * height - offset)\<close>, with a square filled and stroked by
  \<^verbatim>\<open>color\<close> of the row's datum and a text that is the row's datum.
\<close>

definition legend_rows :: "nat list \<Rightarrow> legend_elem list" where
  "legend_rows seen =
     (let data = seen;
          h = legendRectSize + legendSpacing;
          offset = h * real (length seen) / 2;
          horz = - 2 * legendRectSize;
          (fills, seen1) = style_color data seen;
          (strokes, seen2) = style_color data seen1
      in map (\<lambda>i. \<lparr>legend_transform = (horz, real i * h - offset),
                    rect_width = legendRectSize,
                    rect_height = legendRectSize,
                    rect_fill = fills ! i,
                    rect_stroke = strokes ! i,
                    text_x = legendRectSize + legendSpacing,
                    text_y = legendRectSize,
                    text_content = string_of_nat (data ! i)\<rparr>)
           [0..<length data])"

text \<open>
  \<^verbatim>\<open>update(options)\<close> on the surface \<open>svg\<close>: the outcome and the surface afterwards, in
  the order of the source. The builder runs first; then the viewport is read (a
  \<^verbatim>\<open>TypeError\<close> when the options are absent), a fresh colour scale is made, the attributes
  of the surface are set and a new group is appended to it. Only then is
  \<^verbatim>\<open>viewModel.dataPoints\<close> read, so a \<^verbatim>\<open>null\<close> view model raises after the surface has
  changed. The paths and the legend rows go into the new group. Nothing in the method
  removes an element.
\<close>

definition update :: "VisualUpdateOptions option \<Rightarrow> svg_elem \<Rightarrow> (error + unit) \<times> svg_elem" where
  "update options svg =
     (case visualTransform options of
        Inl e \<Rightarrow> (Inl e, svg)
      | Inr viewModel \<Rightarrow>
          (case options of
             None \<Rightarrow> (Inl TypeError, svg)
           | Some opts \<Rightarrow>
               (let w = width (viewport opts);
                    h = height (viewport opts);
                    radius = min w h / 2;
                    color0 = [];
                    svg1 = svg\<lparr>attr_width := Some w, attr_height := Some h\<rparr>;
                    donut = \<lparr>transform = (w / 2, h / 2), paths = [], legends = []\<rparr>
                in case viewModel of
                     None \<Rightarrow>
                       (Inl TypeError, svg1\<lparr>children := children svg1 @ [donut]\<rparr>)
                   | Some vm \<Rightarrow>
                       (let arcs = pie (map count (dataPoints vm));
                            (path, color1) =
                               fill_paths (radius - donutWidth) radius arcs 0 color0;
                            legend = legend_rows color1
                        in (Inr (),
                            svg1\<lparr>children := children svg1 @
                                   [donut\<lparr>paths := path, legends := legend\<rparr>]\<rparr>)))))"

text \<open>
  The group that \<^verbatim>\<open>update\<close> appends for a view model in a viewport, on its own: it does
  not depend on the surface.
\<close>

definition donut_of :: "IViewport \<Rightarrow> DonutSlicerViewModel \<Rightarrow> group_elem" where
  "donut_of vp viewModel =
     (let radius = min (width vp) (height vp) / 2;
          arcs = pie (map count (dataPoints viewModel));
          (ps, seen) = fill_paths (radius - donutWidth) radius arcs 0 []
      in \<lparr>transform = (width vp / 2, height vp / 2),
          paths = ps,
          legends = legend_rows seen\<rparr>)"

subsection \<open>Example inputs\<close>

text \<open>
  An update as the host sends it: a viewport and one data view whose table has the given
  rows.
\<close>

definition example_view :: "prim list list \<Rightarrow> DataView" where
  "example_view rs = \<lparr>metadata = \<lparr>objects = None\<rparr>, table = Some \<lparr>rows = Some rs\<rparr>\<rparr>"

definition example_options :: "real \<Rightarrow> real \<Rightarrow> prim list list \<Rightarrow> VisualUpdateOptions" where
  "example_options w h rs =
     \<lparr>viewport = \<lparr>width = w, height = h\<rparr>, dataViews = Some [Some (example_view rs)]\<rparr>"

section \<open>Properties of the builder\<close>

lemma push_slices_filter:
  "push_slices rs acc = acc @ map point_of (filter (\<lambda>slice. truthy (cell slice 1)) rs)"
  by (induction rs arbitrary: acc) (simp_all add: point_of_def)

lemma first_view_SomeD:
  assumes "first_view options = Some dv"
  obtains opts rest where "options = Some opts" and "dataViews opts = Some (Some dv # rest)"
  using assms
  by (auto simp add: first_view_def split: option.splits list.splits)

lemma visualTransform_rows:
  assumes "first_view options = Some dv" and "view_rows dv = Some rs"
  shows "visualTransform options =
     Inr (Some \<lparr>dataPoints = map point_of (filter (\<lambda>slice. truthy (cell slice 1)) rs)\<rparr>)"
proof -
  from assms(1) obtain opts rest
    where o: "options = Some opts" "dataViews opts = Some (Some dv # rest)"
    by (rule first_view_SomeD)
  from assms(2) obtain t where t: "table dv = Some t" "rows t = Some rs"
    by (auto simp add: view_rows_def split: option.splits)
  show ?thesis
    by (simp add: visualTransform_def o t push_slices_filter)
qed

lemma visualTransform_no_rows:
  assumes "first_view options = Some dv" and "view_rows dv = None"
  shows "visualTransform options = Inl TypeError"
proof -
  from assms(1) obtain opts rest
    where o: "options = Some opts" "dataViews opts = Some (Some dv # rest)"
    by (rule first_view_SomeD)
  from assms(2) show ?thesis
    by (auto simp add: visualTransform_def o view_rows_def split: option.splits)
qed

subsection \<open>When the builder returns null, a view model, or raises\<close>

text \<open>
  C2, as the code has it. The builder returns \<^verbatim>\<open>null\<close> exactly when the update, its
  data-view collection or the first entry of the collection is absent. Whenever the first
  data view is present and has a table with a rows array, the builder returns a view
  model. (A first data view without such a table is the subject of C10.)
\<close>

theorem visualTransform_null_or_viewModel:
  "(visualTransform options = Inr None \<longleftrightarrow>
      options = None \<or>
      (\<exists>opts. options = Some opts \<and>
         (dataViews opts = None \<or> dataViews opts = Some [] \<or>
          (\<exists>rest. dataViews opts = Some (None # rest))))) \<and>
   (\<forall>dv rs. first_view options = Some dv \<and> view_rows dv = Some rs \<longrightarrow>
      (\<exists>vm. visualTransform options = Inr (Some vm)))"
proof (intro conjI allI impI)
  show "visualTransform options = Inr None \<longleftrightarrow>
      options = None \<or>
      (\<exists>opts. options = Some opts \<and>
         (dataViews opts = None \<or> dataViews opts = Some [] \<or>
          (\<exists>rest. dataViews opts = Some (None # rest))))"
    by (auto simp add: visualTransform_def split: option.splits list.splits)
next
  fix dv rs
  assume "first_view options = Some dv \<and> view_rows dv = Some rs"
  then show "\<exists>vm. visualTransform options = Inr (Some vm)"
    by (simp add: visualTransform_rows)
qed

theorem visualTransform_null_or_viewModel_witness:
  "visualTransform (Some \<lparr>viewport = \<lparr>width = 200, height = 200\<rparr>, dataViews = Some []\<rparr>)
     = Inr None \<and>
   (\<exists>vm. visualTransform
      (Some \<lparr>viewport = \<lparr>width = 200, height = 200\<rparr>,
             dataViews = Some [Some \<lparr>metadata = \<lparr>objects = None\<rparr>,
                                    table = Some \<lparr>rows = Some []\<rparr>\<rparr>]\<rparr>)
     = Inr (Some vm))"
proof -
  let ?dv = "\<lparr>metadata = \<lparr>objects = None\<rparr>, table = Some \<lparr>rows = Some []\<rparr>\<rparr>"
  let ?o1 = "\<lparr>viewport = \<lparr>width = 200, height = 200\<rparr>, dataViews = Some []\<rparr>"
  let ?o2 = "\<lparr>viewport = \<lparr>width = 200, height = 200\<rparr>, dataViews = Some [Some ?dv]\<rparr>"
  have a: "visualTransform (Some ?o1) = Inr None"
    using visualTransform_null_or_viewModel [of "Some ?o1"] by simp
  have "first_view (Some ?o2) = Some ?dv \<and> view_rows ?dv = Some []"
    by (simp add: first_view_def view_rows_def)
  then have b: "\<exists>vm. visualTransform (Some ?o2) = Inr (Some vm)"
    using visualTransform_null_or_viewModel [of "Some ?o2"] by blast
  from a b show ?thesis by simp
qed

text \<open>
  C2 as stated fails: here the update, its data-view collection and the first entry are
  all present, the first data view has no table, and the builder returns neither \<^verbatim>\<open>null\<close>
  nor a view model.
\<close>

theorem visualTransform_viewModel_counterexample:
  "visualTransform
     (Some \<lparr>viewport = \<lparr>width = 200, height = 200\<rparr>,
            dataViews = Some [Some \<lparr>metadata = \<lparr>objects = None\<rparr>, table = None\<rparr>]\<rparr>)
   = Inl TypeError"
  by (simp add: visualTransform_def)

text \<open>
  C10. Past the guard, the builder returns a result exactly when the first data view has a
  table with a rows array; when the first data view has no table, the builder raises: it
  returns neither \<^verbatim>\<open>null\<close> nor a view model.
\<close>

theorem visualTransform_total_iff:
  assumes "first_view options = Some dv"
  shows "((\<exists>r. visualTransform options = Inr r) \<longleftrightarrow>
            (\<exists>t rs. table dv = Some t \<and> rows t = Some rs)) \<and>
         (table dv = None \<longrightarrow>
            visualTransform options = Inl TypeError \<and>
            visualTransform options \<noteq> Inr None \<and>
            (\<forall>vm. visualTransform options \<noteq> Inr (Some vm)))"
proof (cases "view_rows dv")
  case None
  then have e: "visualTransform options = Inl TypeError"
    using assms by (simp add: visualTransform_no_rows)
  from None have "\<not> (\<exists>t rs. table dv = Some t \<and> rows t = Some rs)"
    by (auto simp add: view_rows_def)
  with e show ?thesis by simp
next
  case (Some rs)
  then have r: "\<exists>vm. visualTransform options = Inr (Some vm)"
    using assms by (simp add: visualTransform_rows)
  from Some have "\<exists>t rs. table dv = Some t \<and> rows t = Some rs"
    by (auto simp add: view_rows_def split: option.splits)
  with r show ?thesis by auto
qed

theorem visualTransform_total_iff_witness:
  "first_view
     (Some \<lparr>viewport = \<lparr>width = 0, height = 0\<rparr>,
            dataViews = Some [Some \<lparr>metadata = \<lparr>objects = Some []\<rparr>, table = None\<rparr>, None]\<rparr>)
   = Some \<lparr>metadata = \<lparr>objects = Some []\<rparr>, table = None\<rparr> \<and>
   visualTransform
     (Some \<lparr>viewport = \<lparr>width = 0, height = 0\<rparr>,
            dataViews = Some [Some \<lparr>metadata = \<lparr>objects = Some []\<rparr>, table = None\<rparr>, None]\<rparr>)
   = Inl TypeError"
proof -
  let ?dv = "\<lparr>metadata = \<lparr>objects = Some []\<rparr>, table = None\<rparr>"
  let ?o = "\<lparr>viewport = \<lparr>width = 0, height = 0\<rparr>, dataViews = Some [Some ?dv, None]\<rparr>"
  have f: "first_view (Some ?o) = Some ?dv"
    by (simp add: first_view_def)
  from visualTransform_total_iff [OF f] have "visualTransform (Some ?o) = Inl TypeError"
    by simp
  with f show ?thesis by simp
qed

section \<open>Properties of update\<close>

lemma index_of_snoc:
  "index_of x (xs @ [y]) =
     (case index_of x xs of
        Some k \<Rightarrow> Some k
      | None \<Rightarrow> if x = y then Some (length xs) else None)"
  by (induction xs) (auto split: option.splits)

lemma index_of_upt: "index_of x [0..<n] = (if x < n then Some x else None)"
proof (induction n)
  case 0
  then show ?case by simp
next
  case (Suc n)
  then show ?case by (simp add: index_of_snoc)
qed

lemma color_new: "color [0..<i] i = (category20b ! (i mod 20), [0..<Suc i])"
  by (simp add: color_def index_of_upt category20b_def)

lemma color_old: "d < n \<Longrightarrow> color [0..<n] d = (category20b ! (d mod 20), [0..<n])"
  by (simp add: color_def index_of_upt category20b_def)

lemma fill_paths_upt:
  "fill_paths r0 r1 ds i [0..<i] =
     (map (\<lambda>(j, d). \<lparr>datum = d, innerRadius = r0, outerRadius = r1,
                      fill = category20b ! (j mod 20)\<rparr>)
          (zip [i..<i + length ds] ds),
      [0..<i + length ds])"
proof (induction ds arbitrary: i)
  case Nil
  then show ?case by simp
next
  case (Cons d ds)
  have "[i..<i + length (d # ds)] = i # [Suc i..<Suc i + length ds]"
    by (simp add: upt_conv_Cons del: upt_Suc)
  then show ?case
    using Cons.IH [of "Suc i"] by (simp add: color_new del: upt_Suc)
qed

lemma style_color_upt:
  "\<forall>d \<in> set ds. d < n \<Longrightarrow>
   style_color ds [0..<n] = (map (\<lambda>d. category20b ! (d mod 20)) ds, [0..<n])"
  by (induction ds) (simp_all add: color_old)

lemma legend_rows_upt:
  "legend_rows [0..<n] =
     map (\<lambda>i. \<lparr>legend_transform = (- 36, real i * 22 - 11 * real n),
                rect_width = 18, rect_height = 18,
                rect_fill = category20b ! (i mod 20),
                rect_stroke = category20b ! (i mod 20),
                text_x = 22, text_y = 18,
                text_content = string_of_nat i\<rparr>)
         [0..<n]"
proof -
  have s: "style_color [0..<n] [0..<n] = (map (\<lambda>d. category20b ! (d mod 20)) [0..<n], [0..<n])"
    by (rule style_color_upt) simp
  show ?thesis
    by (simp add: legend_rows_def s legendRectSize_def legendSpacing_def Let_def cong: map_cong)
qed

lemma pie_arcs_length: "length (pie_arcs k a vs) = length vs"
  by (induction vs arbitrary: a) simp_all


lemma pie_arcs_span: "map angular_span (pie_arcs k a vs) = map (\<lambda>v. v * k) vs"
  by (induction vs arbitrary: a) (simp_all add: angular_span_def)

lemma pie_arcs_zero:
  "p \<in> set (pie_arcs 0 a vs) \<Longrightarrow> startAngle p = a \<and> endAngle p = a"
  by (induction vs arbitrary: a) auto

lemma sum_list_scale: "sum_list (map (\<lambda>v. v * k) vs) = sum_list vs * (k::real)"
  by (induction vs) (simp_all add: algebra_simps)

lemma donut_of_eq:
  "donut_of vp vm =
     \<lparr>transform = (width vp / 2, height vp / 2),
      paths = map (\<lambda>(j, d). \<lparr>datum = d, innerRadius = min (width vp) (height vp) / 2 - 50,
                      outerRadius = min (width vp) (height vp) / 2,
                      fill = category20b ! (j mod 20)\<rparr>)
                (zip [0..<length (dataPoints vm)] (pie (map count (dataPoints vm)))),
      legends = legend_rows [0..<length (dataPoints vm)]\<rparr>"
proof -
  have l: "length (pie (map count (dataPoints vm))) = length (dataPoints vm)"
    by (simp add: pie_def Let_def pie_arcs_length)
  show ?thesis
    using fill_paths_upt [of _ _ "pie (map count (dataPoints vm))" 0]
    by (simp add: donut_of_def Let_def l donutWidth_def)
qed


lemma donut_of_datum:
  "map datum (paths (donut_of vp vm)) = pie (map count (dataPoints vm))"
proof -
  have l: "length (pie (map count (dataPoints vm))) = length (dataPoints vm)"
    by (simp add: pie_def Let_def pie_arcs_length)
  have "map datum (paths (donut_of vp vm)) =
          map snd (zip [0..<length (dataPoints vm)] (pie (map count (dataPoints vm))))"
    by (simp add: donut_of_eq comp_def case_prod_unfold)
  also have "\<dots> = pie (map count (dataPoints vm))"
    by (simp add: l)
  finally show ?thesis .
qed

lemma donut_of_length: "length (paths (donut_of vp vm)) = length (dataPoints vm)"
  using arg_cong [OF donut_of_datum [of vp vm], of length]
  by (simp add: pie_def Let_def pie_arcs_length)

lemma donut_of_fill:
  assumes "i < length (dataPoints vm)"
  shows "fill (paths (donut_of vp vm) ! i) = category20b ! (i mod 20)"
proof -
  have l: "length (pie (map count (dataPoints vm))) = length (dataPoints vm)"
    by (simp add: pie_def Let_def pie_arcs_length)
  show ?thesis using assms by (simp add: donut_of_eq l)
qed

lemma donut_of_radius:
  assumes "p \<in> set (paths (donut_of vp vm))"
  shows "outerRadius p = min (width vp) (height vp) / 2"
    and "innerRadius p = min (width vp) (height vp) / 2 - 50"
  using assms by (auto simp add: donut_of_eq)

lemma update_viewModel:
  assumes "visualTransform (Some opts) = Inr (Some vm)"
  shows "update (Some opts) svg =
     (Inr (), svg\<lparr>attr_width := Some (width (viewport opts)),
                  attr_height := Some (height (viewport opts)),
                  children := children svg @ [donut_of (viewport opts) vm]\<rparr>)"
  using assms by (simp add: update_def donut_of_def Let_def case_prod_unfold)

lemma update_null:
  assumes "visualTransform (Some opts) = Inr None"
  shows "update (Some opts) svg =
     (Inl TypeError,
      svg\<lparr>attr_width := Some (width (viewport opts)),
          attr_height := Some (height (viewport opts)),
          children := children svg @
            [\<lparr>transform = (width (viewport opts) / 2, height (viewport opts) / 2),
              paths = [], legends = []\<rparr>]\<rparr>)"
  using assms by (simp add: update_def Let_def)

lemma pie_spans:
  "map angular_span (pie cs) =
     (if sum_list (map number_of cs) = 0 then map (\<lambda>c. 0) cs
      else map (\<lambda>c. number_of c * (2 * pi / sum_list (map number_of cs))) cs)"
  by (simp add: pie_def Let_def pie_arcs_span comp_def)

text \<open>
  C1. When the builder yields a view model whose counts are numbers with a positive sum,
  \<^verbatim>\<open>update\<close> appends one group whose arcs, in the order of the data points, have the
  angular span \<open>count / sum * 2\<pi>\<close>; the spans sum to \<open>2\<pi>\<close>, and the outer radius of every
  arc is half the smaller side of the viewport. The instance of the spec (rows 10, 20,
  30, 40 in a 200 by 200 viewport: radius 100, spans of 36, 72, 108 and 144 degrees)
  follows the theorem.
\<close>

theorem update_arc_spans:
  assumes vt: "visualTransform (Some opts) = Inr (Some vm)"
    and num: "\<forall>p \<in> set (dataPoints vm). numeric (count p)"
    and pos: "0 < sum_list (map (number_of \<circ> count) (dataPoints vm))"
  shows "\<exists>g. snd (update (Some opts) svg) =
            svg\<lparr>attr_width := Some (width (viewport opts)),
                attr_height := Some (height (viewport opts)),
                children := children svg @ [g]\<rparr> \<and>
          map (angular_span \<circ> datum) (paths g) =
            map (\<lambda>p. number_of (count p) /
                        sum_list (map (number_of \<circ> count) (dataPoints vm)) * (2 * pi))
                (dataPoints vm) \<and>
          sum_list (map (angular_span \<circ> datum) (paths g)) = 2 * pi \<and>
          (\<forall>p \<in> set (paths g).
             outerRadius p = min (width (viewport opts)) (height (viewport opts)) / 2)"
proof -
  let ?g = "donut_of (viewport opts) vm"
  let ?total = "sum_list (map (number_of \<circ> count) (dataPoints vm))"
  have t: "sum_list (map number_of (map count (dataPoints vm))) = ?total"
    by (simp add: comp_def)
  have "map (angular_span \<circ> datum) (paths ?g) = map angular_span (pie (map count (dataPoints vm)))"
    using donut_of_datum [of "viewport opts" vm] by (simp flip: map_map)
  also have "\<dots> = map (\<lambda>c. number_of c * (2 * pi / ?total)) (map count (dataPoints vm))"
    using pos by (simp only: pie_spans t) simp
  finally have sp: "map (angular_span \<circ> datum) (paths ?g) =
      map (\<lambda>p. number_of (count p) / ?total * (2 * pi)) (dataPoints vm)"
    by (simp add: comp_def)
  have "sum_list (map (angular_span \<circ> datum) (paths ?g)) =
          sum_list (map (\<lambda>p. number_of (count p) / ?total * (2 * pi)) (dataPoints vm))"
    by (simp only: sp)
  also have "\<dots> =
          sum_list (map (\<lambda>v. v * (2 * pi / ?total)) (map (number_of \<circ> count) (dataPoints vm)))"
    by (simp add: comp_def)
  also have "\<dots> = ?total * (2 * pi / ?total)"
    by (rule sum_list_scale)
  also have "\<dots> = 2 * pi"
    using pos by simp
  finally have su: "sum_list (map (angular_span \<circ> datum) (paths ?g)) = 2 * pi" .
  have r: "\<forall>p \<in> set (paths ?g).
             outerRadius p = min (width (viewport opts)) (height (viewport opts)) / 2"
    by (simp add: donut_of_radius)
  show ?thesis
    using sp su r by (intro exI [of _ ?g]) (simp add: update_viewModel [OF vt])
qed


lemma example_options_simps:
  "viewport (example_options w h rs) = \<lparr>width = w, height = h\<rparr>"
  "first_view (Some (example_options w h rs)) = Some (example_view rs)"
  "view_rows (example_view rs) = Some rs"
  by (simp_all add: example_options_def example_view_def first_view_def view_rows_def)

lemma example_options_viewModel:
  "visualTransform (Some (example_options w h rs)) =
     Inr (Some \<lparr>dataPoints = map point_of (filter (\<lambda>slice. truthy (cell slice 1)) rs)\<rparr>)"
  by (rule visualTransform_rows) (rule example_options_simps)+

theorem update_arc_spans_example:
  "\<exists>g. snd (update
             (Some (example_options 200 200
                [[PNum 10, PStr ''A''], [PNum 20, PStr ''B''],
                 [PNum 30, PStr ''C''], [PNum 40, PStr ''D'']]))
             constructor) =
          \<lparr>attr_width = Some 200, attr_height = Some 200, children = [g]\<rparr> \<and>
        map (angular_span \<circ> datum) (paths g) =
          [36 * pi / 180, 72 * pi / 180, 108 * pi / 180, 144 * pi / 180] \<and>
        list_all (\<lambda>p. outerRadius p = 100) (paths g)"
proof -
  let ?rs = "[[PNum 10, PStr ''A''], [PNum 20, PStr ''B''],
              [PNum 30, PStr ''C''], [PNum 40, PStr ''D'']]"
  let ?o = "example_options 200 200 ?rs"
  let ?vm = "\<lparr>dataPoints = map point_of ?rs\<rparr>"
  have vt: "visualTransform (Some ?o) = Inr (Some ?vm)"
    by (simp add: example_options_viewModel cell_def)
  have num: "\<forall>p \<in> set (dataPoints ?vm). numeric (count p)"
    by (simp add: point_of_def cell_def)
  have pos: "0 < sum_list (map (number_of \<circ> count) (dataPoints ?vm))"
    by (simp add: point_of_def cell_def)
  from update_arc_spans [OF vt num pos, of constructor]
  obtain g where g: "snd (update (Some ?o) constructor) =
            constructor\<lparr>attr_width := Some (width (viewport ?o)),
                attr_height := Some (height (viewport ?o)),
                children := children constructor @ [g]\<rparr>"
      "map (angular_span \<circ> datum) (paths g) =
            map (\<lambda>p. number_of (count p) /
                        sum_list (map (number_of \<circ> count) (dataPoints ?vm)) * (2 * pi))
                (dataPoints ?vm)"
      "\<forall>p \<in> set (paths g).
             outerRadius p = min (width (viewport ?o)) (height (viewport ?o)) / 2"
    by blast
  from g(1) have a: "snd (update (Some ?o) constructor) =
      \<lparr>attr_width = Some 200, attr_height = Some 200, children = [g]\<rparr>"
    by (simp add: constructor_def example_options_simps)
  from g(2) have b: "map (angular_span \<circ> datum) (paths g) =
          [36 * pi / 180, 72 * pi / 180, 108 * pi / 180, 144 * pi / 180]"
    by (simp add: point_of_def cell_def)
  from g(3) have c: "list_all (\<lambda>p. outerRadius p = 100) (paths g)"
    by (simp add: list_all_iff example_options_simps)
  show ?thesis
    by (intro exI [of _ g] conjI) (rule a, rule b, rule c)
qed


lemma pie_zero:
  assumes "sum_list (map number_of cs) = 0" and "d \<in> set (pie cs)"
  shows "startAngle d = 0 \<and> endAngle d = 0"
  using assms by (simp add: pie_def Let_def pie_arcs_zero)

text \<open>
  C5, as the code has it. When the counts are numbers that sum to 0 (the empty list
  included), every arc starts and ends at angle 0, so every span is the number 0; one
  path per data point is still appended to the group.
\<close>

theorem update_zero_sum:
  assumes vt: "visualTransform (Some opts) = Inr (Some vm)"
    and num: "\<forall>p \<in> set (dataPoints vm). numeric (count p)"
    and zero: "sum_list (map (number_of \<circ> count) (dataPoints vm)) = 0"
  shows "\<exists>g. snd (update (Some opts) svg) =
            svg\<lparr>attr_width := Some (width (viewport opts)),
                attr_height := Some (height (viewport opts)),
                children := children svg @ [g]\<rparr> \<and>
          length (paths g) = length (dataPoints vm) \<and>
          (\<forall>p \<in> set (paths g).
             startAngle (datum p) = 0 \<and> endAngle (datum p) = 0 \<and>
             angular_span (datum p) = 0)"
proof -
  let ?g = "donut_of (viewport opts) vm"
  have z: "sum_list (map number_of (map count (dataPoints vm))) = 0"
    using zero by (simp add: comp_def)
  have "\<forall>p \<in> set (paths ?g). startAngle (datum p) = 0 \<and> endAngle (datum p) = 0"
  proof
    fix p assume "p \<in> set (paths ?g)"
    then have "datum p \<in> set (map datum (paths ?g))" by simp
    then have "datum p \<in> set (pie (map count (dataPoints vm)))"
      by (simp only: donut_of_datum)
    with z show "startAngle (datum p) = 0 \<and> endAngle (datum p) = 0"
      by (rule pie_zero)
  qed
  then have a: "\<forall>p \<in> set (paths ?g).
             startAngle (datum p) = 0 \<and> endAngle (datum p) = 0 \<and>
             angular_span (datum p) = 0"
    by (simp add: angular_span_def)
  show ?thesis
    using a by (intro exI [of _ ?g]) (simp add: update_viewModel [OF vt] donut_of_length)
qed

theorem update_zero_sum_witness:
  "\<exists>g. snd (update (Some (example_options 300 100 [[PNum 0, PStr ''Z'']])) constructor) =
          \<lparr>attr_width = Some 300, attr_height = Some 100, children = [g]\<rparr> \<and>
        length (paths g) = 1 \<and>
        list_all (\<lambda>p. startAngle (datum p) = 0 \<and> endAngle (datum p) = 0) (paths g)"
proof -
  let ?o = "example_options 300 100 [[PNum 0, PStr ''Z'']]"
  let ?vm = "\<lparr>dataPoints = [\<lparr>count = PNum 0, category = PStr ''Z''\<rparr>]\<rparr>"
  have vt: "visualTransform (Some ?o) = Inr (Some ?vm)"
    by (simp add: example_options_viewModel cell_def point_of_def)
  have num: "\<forall>p \<in> set (dataPoints ?vm). numeric (count p)"
    by simp
  have zero: "sum_list (map (number_of \<circ> count) (dataPoints ?vm)) = 0"
    by simp
  from update_zero_sum [OF vt num zero, of constructor]
  obtain g where g: "snd (update (Some ?o) constructor) =
            constructor\<lparr>attr_width := Some (width (viewport ?o)),
                attr_height := Some (height (viewport ?o)),
                children := children constructor @ [g]\<rparr>"
      "length (paths g) = length (dataPoints ?vm)"
      "\<forall>p \<in> set (paths g).
             startAngle (datum p) = 0 \<and> endAngle (datum p) = 0 \<and>
             angular_span (datum p) = 0"
    by blast
  from g(1) have a: "snd (update (Some ?o) constructor) =
      \<lparr>attr_width = Some 300, attr_height = Some 100, children = [g]\<rparr>"
    by (simp add: constructor_def example_options_simps)
  from g(2) have b: "length (paths g) = 1"
    by simp
  from g(3) have c:
    "list_all (\<lambda>p. startAngle (datum p) = 0 \<and> endAngle (datum p) = 0) (paths g)"
    by (simp add: list_all_iff)
  show ?thesis
    by (intro exI [of _ g] conjI) (rule a, rule b, rule c)
qed

lemma update_example:
  "snd (update (Some (example_options w h rs)) svg) =
     svg\<lparr>attr_width := Some w, attr_height := Some h,
         children := children svg @
           [donut_of \<lparr>width = w, height = h\<rparr>
              \<lparr>dataPoints = map point_of (filter (\<lambda>slice. truthy (cell slice 1)) rs)\<rparr>]\<rparr>"
  by (simp add: update_viewModel [OF example_options_viewModel] example_options_simps)

text \<open>
  C5 as stated fails in its last part: for two rows with count 0 the group holds two
  paths (each of span 0), so arcs are drawn.
\<close>

theorem update_zero_sum_counterexample:
  "map (angular_span \<circ> datum)
     (paths (hd (children (snd (update
        (Some (example_options 200 200 [[PNum 0, PStr ''X''], [PNum 0, PStr ''Y'']]))
        constructor))))) = [0, 0]"
  by (simp add: update_example constructor_def cell_def point_of_def donut_of_eq
      pie_def angular_span_def)

text \<open>
  C7. The arc of the data point at position \<open>i\<close> is filled with entry \<open>i mod 20\<close> of the
  palette of 20 colours, whatever the surface, the viewport and the data are: the colour
  is a function of the position alone.
\<close>

theorem update_fill_palette:
  assumes vt: "visualTransform (Some opts) = Inr (Some vm)"
    and i: "i < length (dataPoints vm)"
  shows "\<exists>g. snd (update (Some opts) svg) =
            svg\<lparr>attr_width := Some (width (viewport opts)),
                attr_height := Some (height (viewport opts)),
                children := children svg @ [g]\<rparr> \<and>
          fill (paths g ! i) = category20b ! (i mod length category20b) \<and>
          20 \<le> length category20b"
proof -
  have l: "length category20b = 20"
    by (simp add: category20b_def)
  show ?thesis
    using donut_of_fill [OF i]
    by (intro exI [of _ "donut_of (viewport opts) vm"]) (simp add: update_viewModel [OF vt] l)
qed

theorem update_fill_palette_witness:
  "\<exists>g. snd (update (Some (example_options 200 200 (replicate 25 [PNum 1, PStr ''k''])))
             constructor) =
          \<lparr>attr_width = Some 200, attr_height = Some 200, children = [g]\<rparr> \<and>
        fill (paths g ! 22) = ''#6b6ecf''"
proof -
  let ?o = "example_options 200 200 (replicate 25 [PNum 1, PStr ''k''])"
  let ?vm = "\<lparr>dataPoints = replicate 25 \<lparr>count = PNum 1, category = PStr ''k''\<rparr>\<rparr>"
  have vt: "visualTransform (Some ?o) = Inr (Some ?vm)"
    by (simp add: example_options_viewModel cell_def point_of_def)
  have i: "22 < length (dataPoints ?vm)"
    by simp
  from update_fill_palette [OF vt i, of constructor]
  obtain g where g: "snd (update (Some ?o) constructor) =
            constructor\<lparr>attr_width := Some (width (viewport ?o)),
                attr_height := Some (height (viewport ?o)),
                children := children constructor @ [g]\<rparr>"
      "fill (paths g ! 22) = category20b ! (22 mod length category20b)"
    by blast
  from g(1) have a: "snd (update (Some ?o) constructor) =
      \<lparr>attr_width = Some 200, attr_height = Some 200, children = [g]\<rparr>"
    by (simp add: constructor_def example_options_simps)
  from g(2) have b: "fill (paths g ! 22) = ''#6b6ecf''"
    by (simp add: category20b_def)
  show ?thesis
    by (intro exI [of _ g] conjI) (rule a, rule b)
qed

section \<open>Which rows the builder keeps, and in which order\<close>

lemma truthy_iff: "truthy c \<longleftrightarrow> c \<notin> {PUndefined, PNull, PStr [], PNum 0, PBool False}"
  by (cases c) auto

lemma truthy_absent_or_empty:
  "c \<in> range PStr \<union> {PUndefined, PNull} \<Longrightarrow> truthy c \<longleftrightarrow> \<not> absent_or_empty c"
  by (cases c) auto

text \<open>
  C6, as the code has it. The builder keeps exactly the rows whose category cell is
  truthy: it drops a row whose category is absent (\<^verbatim>\<open>undefined\<close>, also a row too short),
  \<^verbatim>\<open>null\<close> or the empty string, and also one whose category is the number 0 or the
  boolean false. The count plays no part: a row with a non-empty string category is
  kept whatever its count is, 0 included. When every category cell is a string or
  absent, the rows dropped are exactly those with an absent or empty category.
\<close>

theorem builder_keeps_truthy_rows:
  assumes fv: "first_view options = Some dv" and vr: "view_rows dv = Some rs"
  shows "\<exists>vm. visualTransform options = Inr (Some vm) \<and>
          dataPoints vm =
            map point_of
              (filter (\<lambda>slice. cell slice 1 \<notin> {PUndefined, PNull, PStr [], PNum 0, PBool False})
                 rs) \<and>
          (\<forall>slice \<in> set rs. \<forall>s. cell slice 1 = PStr s \<and> s \<noteq> [] \<longrightarrow>
             \<lparr>count = cell slice 0, category = PStr s\<rparr> \<in> set (dataPoints vm)) \<and>
          ((\<forall>slice \<in> set rs. cell slice 1 \<in> range PStr \<union> {PUndefined, PNull}) \<longrightarrow>
             dataPoints vm =
               map point_of (filter (\<lambda>slice. \<not> absent_or_empty (cell slice 1)) rs))"
proof -
  let ?vm = "\<lparr>dataPoints = map point_of (filter (\<lambda>slice. truthy (cell slice 1)) rs)\<rparr>"
  have a: "visualTransform options = Inr (Some ?vm)"
    using fv vr by (rule visualTransform_rows)
  have b: "dataPoints ?vm =
      map point_of
        (filter (\<lambda>slice. cell slice 1 \<notin> {PUndefined, PNull, PStr [], PNum 0, PBool False}) rs)"
    by (simp only: truthy_iff) simp
  have c: "\<forall>slice \<in> set rs. \<forall>s. cell slice 1 = PStr s \<and> s \<noteq> [] \<longrightarrow>
             \<lparr>count = cell slice 0, category = PStr s\<rparr> \<in> set (dataPoints ?vm)"
  proof (intro ballI allI impI)
    fix slice s
    assume m: "slice \<in> set rs" and s: "cell slice 1 = PStr s \<and> s \<noteq> []"
    then have "truthy (cell slice 1)" by simp
    with m have "point_of slice \<in> set (dataPoints ?vm)" by simp
    with s show "\<lparr>count = cell slice 0, category = PStr s\<rparr> \<in> set (dataPoints ?vm)"
      by (simp add: point_of_def)
  qed
  have d: "(\<forall>slice \<in> set rs. cell slice 1 \<in> range PStr \<union> {PUndefined, PNull}) \<longrightarrow>
             dataPoints ?vm =
               map point_of (filter (\<lambda>slice. \<not> absent_or_empty (cell slice 1)) rs)"
  proof
    assume "\<forall>slice \<in> set rs. cell slice 1 \<in> range PStr \<union> {PUndefined, PNull}"
    then have "filter (\<lambda>slice. truthy (cell slice 1)) rs =
               filter (\<lambda>slice. \<not> absent_or_empty (cell slice 1)) rs"
      by (intro filter_cong refl) (simp only: truthy_absent_or_empty)
    then show "dataPoints ?vm =
               map point_of (filter (\<lambda>slice. \<not> absent_or_empty (cell slice 1)) rs)"
      by simp
  qed
  from a b c d show ?thesis by blast
qed

theorem builder_keeps_truthy_rows_witness:
  "visualTransform
     (Some (example_options 200 200
        [[PNum 0, PStr ''X''], [PNum 5, PStr ''''], [PNum 7], [PNull, PStr ''Y''], [PNum 3, PNull]]))
   = Inr (Some \<lparr>dataPoints = [\<lparr>count = PNum 0, category = PStr ''X''\<rparr>,
                              \<lparr>count = PNull, category = PStr ''Y''\<rparr>]\<rparr>)"
proof -
  let ?rs = "[[PNum 0, PStr ''X''], [PNum 5, PStr ''''], [PNum 7], [PNull, PStr ''Y''], [PNum 3, PNull]]"
  from builder_keeps_truthy_rows [OF example_options_simps(2) example_options_simps(3), of 200 200 ?rs]
  obtain vm where vm: "visualTransform (Some (example_options 200 200 ?rs)) = Inr (Some vm)"
    "dataPoints vm =
            map point_of
              (filter (\<lambda>slice. cell slice 1 \<notin> {PUndefined, PNull, PStr [], PNum 0, PBool False})
                 ?rs)"
    by blast
  from vm(2) have "dataPoints vm = [\<lparr>count = PNum 0, category = PStr ''X''\<rparr>,
                              \<lparr>count = PNull, category = PStr ''Y''\<rparr>]"
    by (simp add: cell_def point_of_def)
  then have "vm = \<lparr>dataPoints = [\<lparr>count = PNum 0, category = PStr ''X''\<rparr>,
                              \<lparr>count = PNull, category = PStr ''Y''\<rparr>]\<rparr>"
    by (cases vm) simp
  with vm(1) show ?thesis by simp
qed

text \<open>
  C6 as stated fails: a category that is the boolean false or the number 0 is neither
  absent nor empty, and the builder drops both rows.
\<close>

theorem builder_drops_counterexample:
  "\<not> absent_or_empty (PBool False) \<and> \<not> absent_or_empty (PNum 0) \<and>
   visualTransform
     (Some (example_options 200 200 [[PNum 10, PBool False], [PNum 20, PNum 0]]))
   = Inr (Some \<lparr>dataPoints = []\<rparr>)"
  by (simp add: example_options_viewModel cell_def)



lemma donut_of_legends:
  "legends (donut_of vp vm) = legend_rows [0..<length (dataPoints vm)]"
  by (simp add: donut_of_eq)





section \<open>The legend\<close>

lemma string_of_digit: "n < 10 \<Longrightarrow> string_of_nat n = [''0123456789'' ! n]"
  by (simp add: string_of_nat.simps)

text \<open>
  C8 fails on the code. For the rows \<open>(10, A)\<close> and \<open>(20, B)\<close> the legend has one row
  per data point, with the colours of the two arcs, but the texts of the rows are
  \<open>0\<close> and \<open>1\<close>: the data of the legend is the domain of the colour scale, which holds
  the indices \<^verbatim>\<open>update\<close> passed to \<^verbatim>\<open>color\<close>, not the categories.
\<close>

theorem legend_text_is_index:
  "visualTransform (Some (example_options 200 200 [[PNum 10, PStr ''A''], [PNum 20, PStr ''B'']]))
     = Inr (Some \<lparr>dataPoints = [\<lparr>count = PNum 10, category = PStr ''A''\<rparr>,
                                \<lparr>count = PNum 20, category = PStr ''B''\<rparr>]\<rparr>) \<and>
   map text_content
     (legends (hd (children (snd (update
        (Some (example_options 200 200 [[PNum 10, PStr ''A''], [PNum 20, PStr ''B'']]))
        constructor))))) = [''0'', ''1''] \<and>
   map rect_fill
     (legends (hd (children (snd (update
        (Some (example_options 200 200 [[PNum 10, PStr ''A''], [PNum 20, PStr ''B'']]))
        constructor))))) = [''#393b79'', ''#5254a3'']"
  using legend_rows_upt [of "Suc (Suc 0)"]
  by (simp add: example_options_viewModel update_example constructor_def cell_def point_of_def
      donut_of_legends string_of_digit category20b_def)

section \<open>Repeated updates\<close>

text \<open>
  C9, as the code has it. An update with a view model appends one group to the surface
  and keeps every group drawn before. The group is determined by the view model and the
  viewport alone, so a second update with the same input appends the same group once
  more: afterwards the surface holds it twice.
\<close>

theorem update_appends_group:
  assumes vt: "visualTransform (Some opts) = Inr (Some vm)"
  shows "children (snd (update (Some opts) svg)) =
           children svg @ [donut_of (viewport opts) vm] \<and>
         children (snd (update (Some opts) (snd (update (Some opts) svg)))) =
           children svg @ [donut_of (viewport opts) vm, donut_of (viewport opts) vm] \<and>
         fst (update (Some opts) (snd (update (Some opts) svg))) = Inr ()"
  by (simp add: update_viewModel [OF vt])

theorem update_appends_group_witness:
  "length (children (snd (update (Some (example_options 200 200 [[PNum 10, PStr ''A'']]))
      (snd (update (Some (example_options 200 200 [[PNum 10, PStr ''A'']])) constructor))))) = 2"
proof -
  let ?o = "example_options 200 200 [[PNum 10, PStr ''A'']]"
  from update_appends_group [OF example_options_viewModel, of 200 200 "[[PNum 10, PStr ''A'']]" constructor]
  show ?thesis by (simp add: constructor_def)
qed

text \<open>
  C9 as stated fails: after two identical updates the surface differs from the surface
  after one.
\<close>

theorem update_twice_counterexample:
  "snd (update (Some (example_options 200 200 [[PNum 10, PStr ''A'']]))
      (snd (update (Some (example_options 200 200 [[PNum 10, PStr ''A'']])) constructor)))
   \<noteq> snd (update (Some (example_options 200 200 [[PNum 10, PStr ''A'']])) constructor)"
  by (simp add: update_example constructor_def)

lemma update_children:
  "\<exists>gs. children (snd (update options svg)) = children svg @ gs"
  by (simp add: update_def Let_def case_prod_unfold split: sum.splits option.splits)

text \<open>
  C3, as the code has it. No update removes anything drawn before: the groups of the
  surface before the call are a prefix of the groups after it. Whenever the first data
  view has a table with rows (so that the view model is not \<^verbatim>\<open>null\<close>), \<^verbatim>\<open>update\<close> returns
  without an error, for every viewport and every list of rows: an empty list, zero
  counts and a zero viewport included.
\<close>

theorem update_keeps_and_returns:
  "(\<exists>gs. children (snd (update options svg)) = children svg @ gs) \<and>
   (\<forall>dv rs. first_view options = Some dv \<and> view_rows dv = Some rs \<longrightarrow>
      fst (update options svg) = Inr ())"
proof (intro conjI allI impI)
  show "\<exists>gs. children (snd (update options svg)) = children svg @ gs"
    by (rule update_children)
next
  fix dv rs
  assume h: "first_view options = Some dv \<and> view_rows dv = Some rs"
  then obtain opts where o: "options = Some opts"
    by (auto elim: first_view_SomeD)
  from h have "visualTransform (Some opts) =
      Inr (Some \<lparr>dataPoints = map point_of (filter (\<lambda>slice. truthy (cell slice 1)) rs)\<rparr>)"
    unfolding o by (simp add: visualTransform_rows)
  then show "fst (update options svg) = Inr ()"
    unfolding o by (simp add: update_viewModel)
qed

theorem update_keeps_and_returns_witness:
  "fst (update (Some (example_options 0 0 [[PNum 0, PStr ''X'']])) constructor) = Inr () \<and>
   fst (update (Some (example_options 0 0 [])) constructor) = Inr ()"
proof -
  have a: "fst (update (Some (example_options 0 0 [[PNum 0, PStr ''X'']])) constructor) = Inr ()"
    using update_keeps_and_returns [of "Some (example_options 0 0 [[PNum 0, PStr ''X'']])" constructor]
    by (simp add: example_options_simps)
  have b: "fst (update (Some (example_options 0 0 [])) constructor) = Inr ()"
    using update_keeps_and_returns [of "Some (example_options 0 0 [])" constructor]
    by (simp add: example_options_simps)
  from a b show ?thesis by simp
qed

text \<open>
  C3 as stated fails: with a \<^verbatim>\<open>null\<close> view model (the data-view collection is absent)
  and a surface that holds a group drawn before, \<^verbatim>\<open>update\<close> raises a \<^verbatim>\<open>TypeError\<close>, the
  earlier group is still there, and an empty group has been added.
\<close>

theorem update_null_counterexample:
  "children (snd (update (Some (example_options 200 200 [[PNum 10, PStr ''A'']])) constructor))
     \<noteq> [] \<and>
   update (Some \<lparr>viewport = \<lparr>width = 200, height = 200\<rparr>, dataViews = None\<rparr>)
     (snd (update (Some (example_options 200 200 [[PNum 10, PStr ''A'']])) constructor)) =
   (Inl TypeError,
    \<lparr>attr_width = Some 200, attr_height = Some 200,
     children =
       children (snd (update (Some (example_options 200 200 [[PNum 10, PStr ''A'']])) constructor))
       @ [\<lparr>transform = (100, 100), paths = [], legends = []\<rparr>]\<rparr>)"
proof -
  have n: "visualTransform (Some \<lparr>viewport = \<lparr>width = 200, height = 200\<rparr>, dataViews = None\<rparr>)
    = Inr None"
    by (simp add: visualTransform_def)
  show ?thesis
    by (simp add: update_null [OF n] update_example constructor_def)
qed

end
